theory Spec2Isabelle
  imports Main "HOL-Library.Word"
begin

section \<open>Data model\<close>

text \<open>
  Python's \<^verbatim>\<open>datetime\<close> and \<^verbatim>\<open>timedelta\<close> are exact counts of microseconds;
  both are integers here (microseconds since the epoch, and a signed duration).
  The calendar range of \<^verbatim>\<open>datetime\<close> is not part of the model.
\<close>

type_synonym datetime = int
type_synonym timedelta = int
type_synonym byte = "8 word"

text \<open>
  The user entity. The three confirmation fields are nullable in the source
  (\<^verbatim>\<open>user.confirmed_at == None\<close>, the commented-out assignments of \<^verbatim>\<open>None\<close>),
  hence options. \<^verbatim>\<open>active\<close> is what Flask-Login's \<^verbatim>\<open>is_active\<close> reads.
\<close>

record user =
  uid :: nat
  email :: string
  password :: string
  active :: bool
  confirmed_at :: "datetime option"
  confirmation_token :: "string option"
  confirmation_sent_at :: "datetime option"

text \<open>
  Exceptions as values. Every constructor stands for a subclass of Python's
  \<^verbatim>\<open>Exception\<close>; \<open>OtherException\<close> is any subclass the program does not name.
\<close>

datatype error =
    ConfirmationError string
  | TokenExpiredError string user
  | UserNotFoundError
  | BadCredentialsError string
  | TypeError
  | KeyError string
  | OtherException string

text \<open>The attributes of the security state object (\<^verbatim>\<open>app.security\<close>) that the code reads.\<close>

record security =
  confirm_email :: bool
  confirm_email_within :: timedelta
  confirm_email_within_text :: string
  login_without_confirmation :: bool
  post_login_view :: string
  post_register_view :: "string option"
  post_confirm_view :: "string option"
  register_url :: string
  login_view :: string
  email_sender :: string

section \<open>The datastore\<close>

text \<open>
  Modelled from the spec: \<^verbatim>\<open>find_user(**criteria) -> User | raises UserNotFoundError\<close>
  of the pluggable datastore, which is not among the sources. The stored users are a
  list; a criterion is a predicate on users, and the first stored user that meets it is
  returned.
\<close>

definition find_user :: "(user \<Rightarrow> bool) \<Rightarrow> user list \<Rightarrow> error + user" where
  "find_user criteria st =
     (case List.find criteria st of
        None \<Rightarrow> Inl UserNotFoundError
      | Some u \<Rightarrow> Inr u)"

text \<open>
  Modelled from the spec: \<^verbatim>\<open>_save_model(user) -> User\<close> of the datastore persists
  the user. The record stored under the user's id is replaced; a user not yet stored is
  added. The function gives the new contents of the datastore.
\<close>

definition save_model :: "user \<Rightarrow> user list \<Rightarrow> user list" where
  "save_model u st =
     (if list_ex (\<lambda>v. uid v = uid u) st
      then map (\<lambda>v. if uid v = uid u then u else v) st
      else st @ [u])"

text \<open>
  The keyword arguments of \<^verbatim>\<open>create_user\<close>: what the registration form gives, and
  the active flag the account is created with, given or defaulted.
\<close>

record user_fields =
  f_email :: string
  f_password :: string
  f_active :: bool

text \<open>
  Modelled from the spec: the id of a new record, which the datastore chooses; here one
  above every id in use.
\<close>

definition next_id :: "user list \<Rightarrow> nat" where
  "next_id st = Suc (fold max (map uid st) 0)"

text \<open>
  Modelled from the spec: \<^verbatim>\<open>create_user(**fields) -> User\<close> of the datastore, which
  is not among the sources. A new record with the given fields and an unused id is
  stored and returned. The contract says nothing of a token for the new record, and its
  confirmation fields are unset here.
\<close>

definition create_user :: "user_fields \<Rightarrow> user list \<Rightarrow> user \<times> user list" where
  "create_user kw st =
     (let u = \<lparr> uid = next_id st, email = f_email kw, password = f_password kw,
                active = f_active kw, confirmed_at = None,
                confirmation_token = None, confirmation_sent_at = None \<rparr>
      in (u, st @ [u]))"

section \<open>The world the request handlers act on\<close>

text \<open>
  What a template is rendered from: the context of \<^verbatim>\<open>send_mail\<close> holds the user
  and the confirmation link. Rendering itself belongs to the framework, so a rendered
  part is kept as the template path with the context it was given.
\<close>

datatype ctxval = CtxUser user | CtxStr string

type_synonym mail_context = "(string \<times> ctxval) list"

record message =
  msg_subject :: string
  msg_sender :: string
  msg_recipients :: "string list"
  msg_body :: "string \<times> mail_context"
  msg_html :: "string \<times> mail_context"

text \<open>
  Notifications (blinker signals), recorded in the order of emission. Receivers are
  external subscribers and none is connected in this model.
\<close>

datatype signal =
    UserRegistered user
  | ConfirmInstructionsSent user
  | UserConfirmed user
  | IdentityChanged nat

text \<open>
  The mutable state: the datastore's users, how many bytes \<^verbatim>\<open>os.urandom\<close> has
  handed out, the messages given to the mail extension, the notifications emitted,
  Flask-Login's session entry (user id and the remember flag), the rest of the session,
  and the flashed messages (message, category). Debug logging is left out.
\<close>

record world =
  store :: "user list"
  urandom_pos :: nat
  outbox :: "message list"
  signals :: "signal list"
  login_session :: "(nat \<times> bool) option"
  session :: "string \<rightharpoonup> string"
  flashes :: "(string \<times> string) list"

text \<open>
  The application object: the security state, the two entries of \<^verbatim>\<open>app.config\<close>
  that \<^verbatim>\<open>utils\<close> reads (\<^verbatim>\<open>SECURITY_FLASH_MESSAGES\<close>, absent counting as false, and the
  view entries by key, each a string or \<^verbatim>\<open>None\<close>), the routing table behind
  \<^verbatim>\<open>url_for\<close>, and the path of the blueprint's own confirm endpoint.
\<close>

record app =
  app_security :: security
  flash_messages :: bool
  view_config :: "string \<rightharpoonup> string option"
  url_map :: "string \<rightharpoonup> string"
  confirm_path :: string

text \<open>
  The request: the referrer, the root URL, and the arguments the code reads
  (\<^verbatim>\<open>request.args.get\<close> and \<^verbatim>\<open>request.form.get\<close> give \<^verbatim>\<open>None\<close> for an absent one).
\<close>

record request =
  referrer :: "string option"
  url_root :: string
  args_next :: "string option"
  form_next :: "string option"
  args_confirmation_token :: "string option"

text \<open>
  The form objects, as the framework builds them from the request: the login form with
  its credentials and the remember flag; the registration form with the verdict of
  \<^verbatim>\<open>validate_on_submit()\<close> and the fields of \<^verbatim>\<open>to_dict()\<close>.
\<close>

record login_form =
  lf_email :: string
  lf_password :: string
  lf_remember :: bool

record register_form =
  rf_valid :: bool
  rf_to_dict :: user_fields

datatype response = Redirect string

section \<open>utils\<close>

text \<open>Python truthiness of a string that may be \<^verbatim>\<open>None\<close>.\<close>

fun truthy :: "string option \<Rightarrow> bool" where
  "truthy None = False"
| "truthy (Some s) = (s \<noteq> [])"

subsection \<open>Token bytes\<close>

text \<open>
  \<^verbatim>\<open>base64.urlsafe_b64encode\<close>: three bytes give four characters of the alphabet
  \<^verbatim>\<open>A-Z a-z 0-9 - _\<close>; a last group of one or two bytes is padded with \<^verbatim>\<open>=\<close>.
\<close>

definition b64_alphabet :: string where
  "b64_alphabet = ''ABCDEFGHIJKLMNOPQRSTUVWXYZabcdefghijklmnopqrstuvwxyz0123456789-_''"

definition sextet :: "nat \<Rightarrow> char" where
  "sextet i = b64_alphabet ! (i mod 64)"

fun urlsafe_b64encode :: "byte list \<Rightarrow> string" where
  "urlsafe_b64encode (a # b # c # rest) =
     (let n = unat a * 65536 + unat b * 256 + unat c
      in sextet (n div 262144) # sextet (n div 4096) # sextet (n div 64) # sextet n
           # urlsafe_b64encode rest)"
| "urlsafe_b64encode [a, b] =
     (let n = unat a * 65536 + unat b * 256
      in [sextet (n div 262144), sextet (n div 4096), sextet (n div 64), CHR ''=''])"
| "urlsafe_b64encode [a] =
     (let n = unat a * 65536
      in [sextet (n div 262144), sextet (n div 4096), CHR ''='', CHR ''=''])"
| "urlsafe_b64encode [] = []"

text \<open>
  \<^verbatim>\<open>os.urandom(n)\<close> reads the next \<open>n\<close> bytes of the system's entropy, given as
  the sequence \<open>rnd\<close> of all bytes it will ever hand out.
\<close>

definition urandom :: "(nat \<Rightarrow> byte) \<Rightarrow> nat \<Rightarrow> nat \<Rightarrow> byte list" where
  "urandom rnd pos n = map rnd [pos..<pos + n]"

definition generate_token :: "(nat \<Rightarrow> byte) \<Rightarrow> nat \<Rightarrow> string" where
  "generate_token rnd pos = urlsafe_b64encode (urandom rnd pos 30)"

subsection \<open>Flash messages, redirects, mail\<close>

text \<open>
  \<^verbatim>\<open>do_flash\<close> flashes only when \<^verbatim>\<open>config_value(current_app, 'FLASH_MESSAGES')\<close>,
  the entry \<^verbatim>\<open>SECURITY_FLASH_MESSAGES\<close> of the configuration, is truthy.
\<close>

definition do_flash :: "app \<Rightarrow> string \<Rightarrow> string \<Rightarrow> world \<Rightarrow> world" where
  "do_flash a message category w =
     (if flash_messages a then w\<lparr>flashes := flashes w @ [(message, category)]\<rparr> else w)"

text \<open>
  \<^verbatim>\<open>get_url\<close>: the URL of a known endpoint, otherwise the value itself
  (\<^verbatim>\<open>url_for(None)\<close> raises too, so \<^verbatim>\<open>None\<close> stays \<^verbatim>\<open>None\<close>).
\<close>

definition get_url :: "app \<Rightarrow> string option \<Rightarrow> string option" where
  "get_url a endpoint_or_url =
     (case endpoint_or_url of
        None \<Rightarrow> None
      | Some e \<Rightarrow> (case url_map a e of Some url \<Rightarrow> Some url | None \<Rightarrow> Some e))"

definition ascii_upper :: "char \<Rightarrow> char" where
  "ascii_upper c =
     (let n = (of_char c :: nat) in if 97 \<le> n \<and> n \<le> 122 then char_of (n - 32) else c)"

definition ascii_lower :: "char \<Rightarrow> char" where
  "ascii_lower c =
     (let n = (of_char c :: nat) in if 65 \<le> n \<and> n \<le> 90 then char_of (n + 32) else c)"

text \<open>The string behind a value that was found truthy.\<close>

definition str_of :: "string option \<Rightarrow> string" where
  "str_of v = (case v of None \<Rightarrow> [] | Some x \<Rightarrow> x)"

text \<open>
  \<^verbatim>\<open>find_redirect(key)\<close>: the session entry is popped (twice in the source; the
  second pop finds nothing), the configuration entry is read only when the session gives
  no URL, and a missing configuration key raises \<^verbatim>\<open>KeyError\<close> before the second pop.
\<close>

definition find_redirect :: "app \<Rightarrow> string \<Rightarrow> world \<Rightarrow> (error + string) \<times> world" where
  "find_redirect a key w =
     (let k = map ascii_lower key;
          popped = session w k;
          w1 = w\<lparr>session := (session w)(k := None)\<rparr> in
      if truthy (get_url a popped) then (Inr (str_of (get_url a popped)), w1)
      else (case view_config a (map ascii_upper key) of
              None \<Rightarrow> (Inl (KeyError (map ascii_upper key)), w1)
            | Some v \<Rightarrow>
                (let conf = (if truthy v then v else None) in
                 if truthy (get_url a conf) then (Inr (str_of (get_url a conf)), w1)
                 else (Inr ''/'', w1))))"

text \<open>
  \<^verbatim>\<open>get_post_login_redirect\<close>: the first truthy one of the \<^verbatim>\<open>next\<close> argument of
  the query, the one of the form, and \<^verbatim>\<open>find_redirect\<close>, which runs only when the
  first two give nothing.
\<close>

definition get_post_login_redirect ::
    "app \<Rightarrow> request \<Rightarrow> world \<Rightarrow> (error + string) \<times> world" where
  "get_post_login_redirect a req w =
     (if truthy (get_url a (args_next req)) then (Inr (str_of (get_url a (args_next req))), w)
      else if truthy (get_url a (form_next req))
      then (Inr (str_of (get_url a (form_next req))), w)
      else find_redirect a ''SECURITY_POST_LOGIN_VIEW'' w)"

text \<open>
  \<^verbatim>\<open>send_mail\<close>: one message to the one recipient, its text and HTML parts rendered
  from the template pair, handed to the mail extension.
\<close>

definition send_mail :: "app \<Rightarrow> string \<Rightarrow> string \<Rightarrow> string \<Rightarrow> mail_context \<Rightarrow> world \<Rightarrow> world" where
  "send_mail a subject recipient template ctx w =
     (let base = ''security/email'';
          msg = \<lparr> msg_subject = subject,
                  msg_sender = email_sender (app_security a),
                  msg_recipients = [recipient],
                  msg_body = (base @ ''/'' @ template @ ''.txt'', ctx),
                  msg_html = (base @ ''/'' @ template @ ''.html'', ctx) \<rparr>
      in w\<lparr>outbox := outbox w @ [msg]\<rparr>)"

section \<open>confirmable: predicates\<close>

definition find_user_by_confirmation_token :: "string option \<Rightarrow> user list \<Rightarrow> error + user" where
  "find_user_by_confirmation_token token st =
     (if \<not> truthy token then Inl (ConfirmationError ''Confirmation token required'')
      else find_user (\<lambda>u. confirmation_token u = token) st)"

text \<open>
  The decorator \<^verbatim>\<open>should_confirm_email\<close>: the wrapped function runs only when
  \<^verbatim>\<open>_security.confirm_email\<close> is set; otherwise the result is \<^verbatim>\<open>False\<close>.
\<close>

definition should_confirm_email ::
    "(user \<Rightarrow> error + bool) \<Rightarrow> security \<Rightarrow> user \<Rightarrow> error + bool" where
  "should_confirm_email fn sec u = (if confirm_email sec then fn u else Inr False)"

definition requires_confirmation :: "security \<Rightarrow> user \<Rightarrow> error + bool" where
  "requires_confirmation = should_confirm_email (\<lambda>u. Inr (confirmed_at u = None))"

text \<open>
  \<^verbatim>\<open>token_expires = datetime.utcnow() - _security.confirm_email_within\<close>, then
  \<^verbatim>\<open>user.confirmation_sent_at < token_expires\<close>. The argument \<open>now\<close> is the
  reading of the clock. Ordering \<^verbatim>\<open>None\<close> against a \<^verbatim>\<open>datetime\<close> raises
  \<^verbatim>\<open>TypeError\<close>.
\<close>

definition confirmation_token_is_expired :: "security \<Rightarrow> datetime \<Rightarrow> user \<Rightarrow> error + bool" where
  "confirmation_token_is_expired sec now =
     should_confirm_email
       (\<lambda>u. let token_expires = now - confirm_email_within sec in
             (case confirmation_sent_at u of
                None \<Rightarrow> Inl TypeError
              | Some sent \<Rightarrow> Inr (sent < token_expires)))
       sec"

section \<open>confirmable: token lifecycle\<close>

text \<open>
  \<^verbatim>\<open>url_for('flask_security.confirm', confirmation_token=...)\<close>: the path of the
  confirm view with the token as query argument; an argument that is \<^verbatim>\<open>None\<close> is
  left out. Percent-quoting is not modelled.
\<close>

definition url_for_confirm :: "app \<Rightarrow> string option \<Rightarrow> string" where
  "url_for_confirm a token =
     confirm_path a @ (case token of None \<Rightarrow> [] | Some t \<Rightarrow> ''?confirmation_token='' @ t)"

definition send_confirmation_instructions ::
    "app \<Rightarrow> request \<Rightarrow> user \<Rightarrow> world \<Rightarrow> bool \<times> world" where
  "send_confirmation_instructions a req u w =
     (let url = url_for_confirm a (confirmation_token u);
          confirmation_link = butlast (url_root req) @ url;
          w1 = send_mail a ''Please confirm your email'' (email u)
                 ''confirmation_instructions''
                 [(''user'', CtxUser u), (''confirmation_link'', CtxStr confirmation_link)] w;
          w2 = w1\<lparr>signals := signals w1 @ [ConfirmInstructionsSent u]\<rparr>
      in (True, w2))"

text \<open>
  The loop of \<^verbatim>\<open>generate_confirmation_token\<close>: draw a token, look it up, leave the
  loop on \<^verbatim>\<open>UserNotFoundError\<close>, draw again when a user is found. Any other
  exception of the lookup leaves the function. The result is the token and the new
  position in the entropy; \<open>None\<close> is a loop that never ends.
\<close>

partial_function (option) generate_confirmation_token_loop ::
    "(nat \<Rightarrow> byte) \<Rightarrow> user list \<Rightarrow> nat \<Rightarrow> ((error + string) \<times> nat) option" where
  "generate_confirmation_token_loop rnd st pos =
     (let token = generate_token rnd pos; pos' = pos + 30 in
      case find_user_by_confirmation_token (Some token) st of
        Inr found \<Rightarrow> generate_confirmation_token_loop rnd st pos'
      | Inl e \<Rightarrow> (if e = UserNotFoundError then Some (Inr token, pos')
                 else Some (Inl e, pos')))"

text \<open>
  After the loop the clock is read once (\<open>now\<close>) and both fields are assigned. The
  source writes them as items and, on \<^verbatim>\<open>TypeError\<close>, as attributes: either way the
  same two fields of the user change.
\<close>

definition generate_confirmation_token ::
    "(nat \<Rightarrow> byte) \<Rightarrow> datetime \<Rightarrow> user \<Rightarrow> world \<Rightarrow> ((error + user) \<times> world) option" where
  "generate_confirmation_token rnd now u w =
     (case generate_confirmation_token_loop rnd (store w) (urandom_pos w) of
        None \<Rightarrow> None
      | Some (r, pos') \<Rightarrow>
          (let w1 = w\<lparr>urandom_pos := pos'\<rparr> in
           case r of
             Inl e \<Rightarrow> Some (Inl e, w1)
           | Inr token \<Rightarrow>
               Some (Inr (u\<lparr>confirmation_token := Some token,
                            confirmation_sent_at := Some now\<rparr>), w1)))"

text \<open>
  \<^verbatim>\<open>confirm_by_token\<close> reads the clock twice: \<open>now\<close> inside the expiry predicate
  and \<open>stamp\<close> for \<^verbatim>\<open>confirmed_at\<close>. A \<^verbatim>\<open>datetime\<close> is always truthy, so
  \<^verbatim>\<open>if user.confirmed_at\<close> asks whether the field is set.
\<close>

definition confirm_by_token ::
    "security \<Rightarrow> datetime \<Rightarrow> datetime \<Rightarrow> string option \<Rightarrow> world \<Rightarrow> (error + user) \<times> world" where
  "confirm_by_token sec now stamp token w =
     (case find_user_by_confirmation_token token (store w) of
        Inl e \<Rightarrow>
          (if e = UserNotFoundError then (Inl (ConfirmationError ''Invalid confirmation token''), w)
           else (Inl e, w))
      | Inr u \<Rightarrow>
          if confirmed_at u \<noteq> None
          then (Inl (ConfirmationError ''Account has already been confirmed''), w)
          else (case confirmation_token_is_expired sec now u of
                  Inl e \<Rightarrow> (Inl e, w)
                | Inr True \<Rightarrow> (Inl (TokenExpiredError ''Confirmation token is expired'' u), w)
                | Inr False \<Rightarrow>
                    (let u1 = u\<lparr>confirmed_at := Some stamp\<rparr>;
                         w1 = w\<lparr>store := save_model u1 (store w)\<rparr>;
                         w2 = w1\<lparr>signals := signals w1 @ [UserConfirmed u1]\<rparr>
                     in (Inr u1, w2))))"

text \<open>
  \<^verbatim>\<open>reset_confirmation_token\<close>: the user object that
  \<^verbatim>\<open>generate_confirmation_token\<close> has changed is the one saved and the one the
  instructions are sent for. The source returns nothing; the result here is the user
  object as the call leaves it, which the caller still holds.
\<close>

definition reset_confirmation_token ::
    "(nat \<Rightarrow> byte) \<Rightarrow> app \<Rightarrow> request \<Rightarrow> datetime \<Rightarrow> user \<Rightarrow> world
       \<Rightarrow> ((error + user) \<times> world) option" where
  "reset_confirmation_token rnd a req now u w =
     (case generate_confirmation_token rnd now u w of
        None \<Rightarrow> None
      | Some (Inl e, w1) \<Rightarrow> Some (Inl e, w1)
      | Some (Inr u1, w1) \<Rightarrow>
          (let w2 = w1\<lparr>store := save_model u1 (store w1)\<rparr>;
               (sent, w3) = send_confirmation_instructions a req u1 w2
           in Some (Inr u1, w3)))"

section \<open>views\<close>

text \<open>
  Flask-Login's \<^verbatim>\<open>login_user(user, remember)\<close>: an inactive user is refused and
  nothing changes; otherwise the session takes the user's id and the call returns
  \<^verbatim>\<open>True\<close>.
\<close>

definition login_user :: "user \<Rightarrow> bool \<Rightarrow> world \<Rightarrow> bool \<times> world" where
  "login_user u remember w =
     (if active u then (True, w\<lparr>login_session := Some (uid u, remember)\<rparr>) else (False, w))"

text \<open>
  \<^verbatim>\<open>_do_login\<close>: when \<^verbatim>\<open>login_user\<close> succeeds the identity change is announced and
  the result is \<^verbatim>\<open>True\<close>; otherwise the result is \<^verbatim>\<open>False\<close>.
\<close>

definition do_login :: "user \<Rightarrow> bool \<Rightarrow> world \<Rightarrow> bool \<times> world" where
  "do_login u remember w =
     (case login_user u remember w of
        (True, w1) \<Rightarrow> (True, w1\<lparr>signals := signals w1 @ [IdentityChanged (uid u)]\<rparr>)
      | (False, w1) \<Rightarrow> (False, w1))"

text \<open>
  \<^verbatim>\<open>authenticate\<close>. The pluggable \<^verbatim>\<open>auth_provider.authenticate(form)\<close> is a
  parameter: it returns a user or raises. \<open>authenticate_attempt\<close> is the body of the
  \<^verbatim>\<open>try\<close> statement, \<open>authenticate\<close> the view with its two \<^verbatim>\<open>except\<close>
  clauses: the first takes \<^verbatim>\<open>BadCredentialsError\<close>, the second every other
  exception.
\<close>

type_synonym auth_provider = "login_form \<Rightarrow> user list \<Rightarrow> error + user"

definition authenticate_attempt ::
    "auth_provider \<Rightarrow> app \<Rightarrow> request \<Rightarrow> login_form \<Rightarrow> world \<Rightarrow> (error + response) \<times> world" where
  "authenticate_attempt provider a req form w =
     (case provider form (store w) of
        Inl e \<Rightarrow> (Inl e, w)
      | Inr u \<Rightarrow>
          (case do_login u (lf_remember form) w of
             (True, w1) \<Rightarrow>
               (case get_post_login_redirect a req w1 of
                  (Inl e, w2) \<Rightarrow> (Inl e, w2)
                | (Inr url, w2) \<Rightarrow> (Inr (Redirect url), w2))
           | (False, w1) \<Rightarrow> (Inl (BadCredentialsError ''Inactive user''), w1)))"

definition authenticate ::
    "auth_provider \<Rightarrow> app \<Rightarrow> request \<Rightarrow> login_form \<Rightarrow> world \<Rightarrow> (error + response) \<times> world" where
  "authenticate provider a req form w =
     (case authenticate_attempt provider a req form w of
        (Inr resp, w1) \<Rightarrow> (Inr resp, w1)
      | (Inl e, w1) \<Rightarrow>
          (let msg = (case e of
                        BadCredentialsError m \<Rightarrow> m
                      | _ \<Rightarrow> ''Unknown authentication error'');
               w2 = do_flash a msg ''error'' w1
           in (Inr (Redirect (if truthy (referrer req) then str_of (referrer req)
                              else login_view (app_security a))), w2)))"

text \<open>
  \<^verbatim>\<open>register\<close>. \<^verbatim>\<open>_do_login(user)\<close> is called with the default
  \<^verbatim>\<open>remember=True\<close>, and its result is not looked at.
\<close>

definition register :: "app \<Rightarrow> request \<Rightarrow> register_form \<Rightarrow> world \<Rightarrow> response \<times> world" where
  "register a req form w =
     (let sec = app_security a in
      if rf_valid form then
        (let (u, st) = create_user (rf_to_dict form) (store w);
             w1 = w\<lparr>store := st\<rparr>;
             w2 = w1\<lparr>signals := signals w1 @ [UserRegistered u]\<rparr>;
             w3 = (if confirm_email sec then snd (send_confirmation_instructions a req u w2)
                   else w2);
             w4 = (if \<not> confirm_email sec \<or> login_without_confirmation sec
                   then snd (do_login u True w3) else w3)
         in (Redirect (if truthy (post_register_view sec) then str_of (post_register_view sec)
                       else post_login_view sec), w4))
      else (Redirect (if truthy (referrer req) then str_of (referrer req)
                      else register_url sec), w))"

text \<open>
  \<^verbatim>\<open>confirm\<close>: \<open>now\<close> and \<open>stamp\<close> are the clock readings of
  \<^verbatim>\<open>confirm_by_token\<close>, \<open>again\<close> the one of the reissue.
\<close>

definition confirm ::
    "(nat \<Rightarrow> byte) \<Rightarrow> app \<Rightarrow> request \<Rightarrow> datetime \<Rightarrow> datetime \<Rightarrow> datetime \<Rightarrow> world
       \<Rightarrow> ((error + response) \<times> world) option" where
  "confirm rnd a req now stamp again w =
     (let sec = app_security a in
      case confirm_by_token sec now stamp (args_confirmation_token req) w of
        (Inr u, w1) \<Rightarrow>
          Some (Inr (Redirect (if truthy (post_confirm_view sec) then str_of (post_confirm_view sec)
                               else post_login_view sec)),
                do_flash a ''Your email has been confirmed. You may now log in.'' ''success'' w1)
      | (Inl (ConfirmationError m), w1) \<Rightarrow>
          Some (Inr (Redirect ''/''), do_flash a m ''error'' w1)
      | (Inl (TokenExpiredError m u), w1) \<Rightarrow>
          (case reset_confirmation_token rnd a req again u w1 of
             None \<Rightarrow> None
           | Some (Inl e, w2) \<Rightarrow> Some (Inl e, w2)
           | Some (Inr u1, w2) \<Rightarrow>
               (let msg = ''You did not confirm your email within ''
                            @ confirm_email_within_text sec
                            @ ''. A new confirmation code has been sent to '' @ email u1
                in Some (Inr (Redirect ''/''), do_flash a msg ''error'' w2)))
      | (Inl e, w1) \<Rightarrow> Some (Inl e, w1))"

section \<open>Notions used in the statements\<close>

text \<open>
  \<open>candidate rnd pos k\<close> is the token of the \<open>k\<close>-th draw of a generation loop that
  starts at position \<open>pos\<close> of the entropy (each draw takes 30 bytes);
  \<open>token_in_use t st\<close> says that a stored user holds the token \<open>t\<close>.
\<close>

definition candidate :: "(nat \<Rightarrow> byte) \<Rightarrow> nat \<Rightarrow> nat \<Rightarrow> string" where
  "candidate rnd pos k = generate_token rnd (pos + 30 * k)"

definition token_in_use :: "string \<Rightarrow> user list \<Rightarrow> bool" where
  "token_in_use t st = list_ex (\<lambda>v. confirmation_token v = Some t) st"

text \<open>
  The message of \<^verbatim>\<open>send_confirmation_instructions\<close> for a user, as
  \<^verbatim>\<open>send_mail\<close> builds it.
\<close>

definition confirmation_message :: "app \<Rightarrow> request \<Rightarrow> user \<Rightarrow> message" where
  "confirmation_message a req u =
     (let ctx = [(''user'', CtxUser u),
                 (''confirmation_link'',
                    CtxStr (butlast (url_root req) @ url_for_confirm a (confirmation_token u)))]
      in \<lparr> msg_subject = ''Please confirm your email'',
           msg_sender = email_sender (app_security a),
           msg_recipients = [email u],
           msg_body = (''security/email/confirmation_instructions.txt'', ctx),
           msg_html = (''security/email/confirmation_instructions.html'', ctx) \<rparr>)"

section \<open>A concrete scenario\<close>

text \<open>
  Confirmation is required within five days. Alice registered at time 0 and holds the
  token of thirty zero bytes; Bob is confirmed already. The entropy gives thirty zero
  bytes first, so the first draw of a new token collides with Alice's.
\<close>

definition five_days :: timedelta where
  "five_days = 432000000000"

definition demo_security :: security where
  "demo_security =
     \<lparr> confirm_email = True, confirm_email_within = five_days,
       confirm_email_within_text = ''5 days'', login_without_confirmation = False,
       post_login_view = ''/'', post_register_view = None, post_confirm_view = None,
       register_url = ''/register'', login_view = ''/login'',
       email_sender = ''no-reply@localhost'' \<rparr>"

definition demo_app :: app where
  "demo_app =
     \<lparr> app_security = demo_security, flash_messages = True,
       view_config = [''SECURITY_POST_LOGIN_VIEW'' \<mapsto> Some ''/''],
       url_map = Map.empty, confirm_path = ''/confirm'' \<rparr>"

definition demo_request :: request where
  "demo_request =
     \<lparr> referrer = None, url_root = ''http://localhost/'', args_next = None,
       form_next = None, args_confirmation_token = None \<rparr>"

definition zero_token :: string where
  "zero_token = ''AAAAAAAAAAAAAAAAAAAAAAAAAAAAAAAAAAAAAAAA''"

definition ones_token :: string where
  "ones_token = ''AQEBAQEBAQEBAQEBAQEBAQEBAQEBAQEBAQEBAQEB''"

definition twos_token :: string where
  "twos_token = ''AgICAgICAgICAgICAgICAgICAgICAgICAgICAgIC''"

definition alice :: user where
  "alice =
     \<lparr> uid = 1, email = ''alice@example.com'', password = ''hash-a'', active = True,
       confirmed_at = None, confirmation_token = Some zero_token,
       confirmation_sent_at = Some 0 \<rparr>"

definition bob :: user where
  "bob =
     \<lparr> uid = 2, email = ''bob@example.com'', password = ''hash-b'', active = True,
       confirmed_at = Some 7, confirmation_token = Some ones_token,
       confirmation_sent_at = Some 3 \<rparr>"

definition demo_world :: world where
  "demo_world =
     \<lparr> store = [alice, bob], urandom_pos = 0, outbox = [], signals = [],
       login_session = None, session = Map.empty, flashes = [] \<rparr>"

definition demo_rnd :: "nat \<Rightarrow> byte" where
  "demo_rnd i = (if i < 30 then 0 else if i < 60 then 1 else 2)"

definition carol_form :: register_form where
  "carol_form =
     \<lparr> rf_valid = True,
       rf_to_dict = \<lparr> f_email = ''carol@example.com'', f_password = ''hash-c'',
                      f_active = True \<rparr> \<rparr>"

definition carol :: user where
  "carol =
     \<lparr> uid = 3, email = ''carol@example.com'', password = ''hash-c'', active = True,
       confirmed_at = None, confirmation_token = None, confirmation_sent_at = None \<rparr>"


definition demo_login_form :: login_form where
  "demo_login_form =
     \<lparr> lf_email = ''alice@example.com'', lf_password = ''wrong'', lf_remember = False \<rparr>"

text \<open>A provider that rejects every attempt, and one that fails with an error of its own.\<close>

definition rejecting_provider :: auth_provider where
  "rejecting_provider form st = Inl (BadCredentialsError ''Invalid password'')"

definition broken_provider :: auth_provider where
  "broken_provider form st = Inl (OtherException ''AttributeError'')"

section \<open>Auxiliary facts\<close>

subsection \<open>Tokens are never empty\<close>

lemma urlsafe_b64encode_length:
  "length (urlsafe_b64encode bs) = 4 * ((length bs + 2) div 3)"
proof (induction bs rule: urlsafe_b64encode.induct)
  case (1 a b c rest)
  have "(length (a # b # c # rest) + 2) div 3 = Suc ((length rest + 2) div 3)" by simp
  with 1 show ?case by (simp add: Let_def)
qed (simp_all add: Let_def)

lemma generate_token_length: "length (generate_token rnd pos) = 40"
  by (simp add: generate_token_def urandom_def urlsafe_b64encode_length)

lemma generate_token_truthy: "truthy (Some (generate_token rnd pos))"
  using generate_token_length [of rnd pos] by auto

subsection \<open>Lookup by token\<close>

lemma find_None_list_ex: "(List.find P xs = None) = (\<not> list_ex P xs)"
  by (induction xs) auto

lemma token_in_use_iff: "token_in_use t st = (\<exists>v\<in>set st. confirmation_token v = Some t)"
  by (simp add: token_in_use_def list_ex_iff)

lemma lookup_fresh:
  "truthy (Some t) \<Longrightarrow> \<not> token_in_use t st \<Longrightarrow>
   find_user_by_confirmation_token (Some t) st = Inl UserNotFoundError"
  by (simp add: find_user_by_confirmation_token_def find_user_def token_in_use_def
        find_None_list_ex [symmetric])

lemma lookup_taken:
  "truthy (Some t) \<Longrightarrow> token_in_use t st \<Longrightarrow>
   \<exists>u. find_user_by_confirmation_token (Some t) st = Inr u"
  by (cases "List.find (\<lambda>u. confirmation_token u = Some t) st")
     (simp_all add: find_user_by_confirmation_token_def find_user_def token_in_use_def
        find_None_list_ex)

lemma lookup_found:
  assumes "find_user_by_confirmation_token tok st = Inr u"
  shows "truthy tok" and "confirmation_token u = tok" and "u \<in> set st"
    and "List.find (\<lambda>v. confirmation_token v = tok) st = Some u"
proof -
  from assms show t: "truthy tok"
    by (auto simp: find_user_by_confirmation_token_def split: if_splits)
  with assms show f: "List.find (\<lambda>v. confirmation_token v = tok) st = Some u"
    by (auto simp: find_user_by_confirmation_token_def find_user_def split: option.splits)
  then show "confirmation_token u = tok" and "u \<in> set st"
    by (auto simp: find_Some_iff)
qed

lemma lookup_falsy:
  "\<not> truthy tok \<Longrightarrow>
   find_user_by_confirmation_token tok st = Inl (ConfirmationError ''Confirmation token required'')"
  by (simp add: find_user_by_confirmation_token_def)

lemma lookup_unknown:
  assumes "truthy tok" and "\<forall>v\<in>set st. confirmation_token v \<noteq> tok"
  shows "find_user_by_confirmation_token tok st = Inl UserNotFoundError"
proof -
  from assms(2) have "List.find (\<lambda>v. confirmation_token v = tok) st = None"
    by (simp add: find_None_iff)
  with assms(1) show ?thesis
    by (simp add: find_user_by_confirmation_token_def find_user_def)
qed

subsection \<open>Saving\<close>

lemma save_model_mem: "u \<in> set (save_model u st)"
  by (auto simp: save_model_def list_ex_iff)

lemma find_map_replace:
  "List.find P st = Some u \<Longrightarrow> P u1 \<Longrightarrow>
   List.find P (map (\<lambda>v. if uid v = uid u then u1 else v) st) = Some u1"
  by (induction st) (auto split: if_splits)

lemma find_after_save:
  assumes "List.find P st = Some u" and "P u1" and "uid u1 = uid u"
  shows "List.find P (save_model u1 st) = Some u1"
proof -
  from assms(1) have "u \<in> set st" by (auto simp: find_Some_iff)
  with assms(3) have "list_ex (\<lambda>v. uid v = uid u1) st" by (auto simp: list_ex_iff)
  with assms show ?thesis by (simp add: save_model_def find_map_replace)
qed

subsection \<open>The generation loop\<close>

lemma loop_step_fresh:
  "\<not> token_in_use (generate_token rnd pos) st \<Longrightarrow>
   generate_confirmation_token_loop rnd st pos = Some (Inr (generate_token rnd pos), pos + 30)"
  by (subst generate_confirmation_token_loop.simps)
     (simp add: lookup_fresh generate_token_truthy del: truthy.simps)

lemma loop_step_taken:
  "token_in_use (generate_token rnd pos) st \<Longrightarrow>
   generate_confirmation_token_loop rnd st pos = generate_confirmation_token_loop rnd st (pos + 30)"
  using lookup_taken [OF generate_token_truthy, of rnd pos st]
  by (subst generate_confirmation_token_loop.simps) auto

lemma candidate_shift: "candidate rnd (pos + 30) j = candidate rnd pos (Suc j)"
  by (simp add: candidate_def add.assoc)

lemma loop_returns:
  "\<not> token_in_use (candidate rnd pos k) st \<Longrightarrow>
   (\<forall>j<k. token_in_use (candidate rnd pos j) st) \<Longrightarrow>
   generate_confirmation_token_loop rnd st pos =
     Some (Inr (candidate rnd pos k), pos + 30 * Suc k)"
proof (induction k arbitrary: pos)
  case 0
  then show ?case by (simp add: candidate_def loop_step_fresh)
next
  case (Suc k)
  from Suc.prems(2) have "token_in_use (candidate rnd pos 0) st" by blast
  then have "token_in_use (generate_token rnd pos) st" by (simp add: candidate_def)
  then have "generate_confirmation_token_loop rnd st pos =
             generate_confirmation_token_loop rnd st (pos + 30)"
    by (rule loop_step_taken)
  also have "\<dots> = Some (Inr (candidate rnd (pos + 30) k), pos + 30 + 30 * Suc k)"
  proof (rule Suc.IH)
    show "\<not> token_in_use (candidate rnd (pos + 30) k) st"
      using Suc.prems(1) by (simp add: candidate_shift)
    show "\<forall>j<k. token_in_use (candidate rnd (pos + 30) j) st"
      using Suc.prems(2) by (auto simp: candidate_shift)
  qed
  finally show ?case by (simp add: candidate_shift)
qed

lemma loop_sound:
  "generate_confirmation_token_loop rnd st pos = Some y \<Longrightarrow>
   \<exists>k. y = (Inr (candidate rnd pos k), pos + 30 * Suc k) \<and>
       \<not> token_in_use (candidate rnd pos k) st \<and>
       (\<forall>j<k. token_in_use (candidate rnd pos j) st)"
proof (induct rule: generate_confirmation_token_loop.raw_induct
                      [rotated 1, consumes 1, case_names step])
  case (step f rnd st pos y)
  show ?case
  proof (cases "token_in_use (generate_token rnd pos) st")
    case False
    with step(2) have "y = (Inr (candidate rnd pos 0), pos + 30 * Suc 0)"
      by (simp add: lookup_fresh generate_token_truthy candidate_def del: truthy.simps)
    with False show ?thesis by (intro exI [of _ 0]) (simp add: candidate_def)
  next
    case True
    with step(2) lookup_taken [OF generate_token_truthy, of rnd pos st]
    have "f rnd st (pos + 30) = Some y"
      by auto
    from step(1) [OF this] obtain k where k:
      "y = (Inr (candidate rnd (pos + 30) k), pos + 30 + 30 * Suc k)"
      "\<not> token_in_use (candidate rnd (pos + 30) k) st"
      "\<forall>j<k. token_in_use (candidate rnd (pos + 30) j) st"
      by auto
    have "\<forall>j<Suc k. token_in_use (candidate rnd pos j) st"
    proof (intro allI impI)
      fix j assume j: "j < Suc k"
      show "token_in_use (candidate rnd pos j) st"
      proof (cases j)
        case 0
        with True show ?thesis by (simp add: candidate_def)
      next
        case (Suc i)
        with j k(3) have "token_in_use (candidate rnd (pos + 30) i) st" by simp
        with Suc show ?thesis by (simp add: candidate_shift)
      qed
    qed
    with k(1,2) show ?thesis
      by (intro exI [of _ "Suc k"]) (simp add: candidate_shift)
  qed
qed

lemma first_fresh:
  assumes "\<not> token_in_use (candidate rnd pos k) st"
  obtains m where "\<not> token_in_use (candidate rnd pos m) st"
    and "\<forall>j<m. token_in_use (candidate rnd pos j) st"
proof -
  let ?P = "\<lambda>i. \<not> token_in_use (candidate rnd pos i) st"
  have "?P (LEAST i. ?P i)" using assms by (rule LeastI)
  moreover have "\<forall>j<(LEAST i. ?P i). token_in_use (candidate rnd pos j) st"
    using not_less_Least by blast
  ultimately show thesis using that by blast
qed

lemma loop_terminates:
  assumes "\<not> token_in_use (candidate rnd pos k) st"
  shows "\<exists>y. generate_confirmation_token_loop rnd st pos = Some y"
proof -
  from assms obtain m where "\<not> token_in_use (candidate rnd pos m) st"
    and "\<forall>j<m. token_in_use (candidate rnd pos j) st"
    by (rule first_fresh)
  then show ?thesis by (simp add: loop_returns)
qed

subsection \<open>Confirmation, generation and reissue\<close>

lemma confirm_expired:
  assumes "find_user_by_confirmation_token token (store w) = Inr u"
    and "confirmed_at u = None"
    and "confirmation_token_is_expired sec now u = Inr True"
  shows "confirm_by_token sec now stamp token w =
           (Inl (TokenExpiredError ''Confirmation token is expired'' u), w)"
  using assms by (simp add: confirm_by_token_def)

lemma confirm_success:
  assumes "find_user_by_confirmation_token token (store w) = Inr u"
    and "confirmed_at u = None"
    and "confirmation_token_is_expired sec now u = Inr False"
  shows "confirm_by_token sec now stamp token w =
           (Inr (u\<lparr>confirmed_at := Some stamp\<rparr>),
            w\<lparr>store := save_model (u\<lparr>confirmed_at := Some stamp\<rparr>) (store w),
              signals := signals w @ [UserConfirmed (u\<lparr>confirmed_at := Some stamp\<rparr>)]\<rparr>)"
  using assms by (simp add: confirm_by_token_def Let_def)

lemma generate_sound:
  assumes "generate_confirmation_token rnd now u w = Some (r, w')"
  shows "\<exists>k. r = Inr (u\<lparr>confirmation_token := Some (candidate rnd (urandom_pos w) k),
                       confirmation_sent_at := Some now\<rparr>) \<and>
             w' = w\<lparr>urandom_pos := urandom_pos w + 30 * Suc k\<rparr> \<and>
             \<not> token_in_use (candidate rnd (urandom_pos w) k) (store w) \<and>
             (\<forall>j<k. token_in_use (candidate rnd (urandom_pos w) j) (store w))"
proof -
  from assms obtain y where y: "generate_confirmation_token_loop rnd (store w) (urandom_pos w) = Some y"
    by (auto simp: generate_confirmation_token_def split: option.splits)
  from loop_sound [OF y] obtain k where k:
    "y = (Inr (candidate rnd (urandom_pos w) k), urandom_pos w + 30 * Suc k)"
    "\<not> token_in_use (candidate rnd (urandom_pos w) k) (store w)"
    "\<forall>j<k. token_in_use (candidate rnd (urandom_pos w) j) (store w)"
    by blast
  from assms y k(1) have "r = Inr (u\<lparr>confirmation_token := Some (candidate rnd (urandom_pos w) k),
                       confirmation_sent_at := Some now\<rparr>)"
    and "w' = w\<lparr>urandom_pos := urandom_pos w + 30 * Suc k\<rparr>"
    by (simp_all add: generate_confirmation_token_def)
  with k(2,3) show ?thesis by blast
qed

lemma generate_terminates:
  assumes "\<not> token_in_use (candidate rnd (urandom_pos w) k) (store w)"
  shows "\<exists>r w'. generate_confirmation_token rnd now u w = Some (r, w')"
proof -
  from loop_terminates [OF assms] obtain y where
    "generate_confirmation_token_loop rnd (store w) (urandom_pos w) = Some y" by blast
  then show ?thesis
    by (cases y) (auto simp: generate_confirmation_token_def Let_def split: sum.splits)
qed

lemma reset_sound:
  assumes "reset_confirmation_token rnd a req now u w = Some (r, w')"
  shows "\<exists>k. r = Inr (u\<lparr>confirmation_token := Some (candidate rnd (urandom_pos w) k),
                       confirmation_sent_at := Some now\<rparr>) \<and>
             w' = w\<lparr>urandom_pos := urandom_pos w + 30 * Suc k,
                    store := save_model (u\<lparr>confirmation_token := Some (candidate rnd (urandom_pos w) k),
                       confirmation_sent_at := Some now\<rparr>) (store w),
                    outbox := outbox w @ [confirmation_message a req
                       (u\<lparr>confirmation_token := Some (candidate rnd (urandom_pos w) k),
                       confirmation_sent_at := Some now\<rparr>)],
                    signals := signals w @ [ConfirmInstructionsSent
                       (u\<lparr>confirmation_token := Some (candidate rnd (urandom_pos w) k),
                       confirmation_sent_at := Some now\<rparr>)]\<rparr> \<and>
             \<not> token_in_use (candidate rnd (urandom_pos w) k) (store w)"
proof -
  from assms obtain r1 w1 where g: "generate_confirmation_token rnd now u w = Some (r1, w1)"
    by (auto simp: reset_confirmation_token_def split: option.splits)
  from generate_sound [OF g] obtain k where k:
    "r1 = Inr (u\<lparr>confirmation_token := Some (candidate rnd (urandom_pos w) k),
                       confirmation_sent_at := Some now\<rparr>)"
    "w1 = w\<lparr>urandom_pos := urandom_pos w + 30 * Suc k\<rparr>"
    "\<not> token_in_use (candidate rnd (urandom_pos w) k) (store w)"
    by blast
  from assms g k(1,2) have
    "r = Inr (u\<lparr>confirmation_token := Some (candidate rnd (urandom_pos w) k),
                       confirmation_sent_at := Some now\<rparr>)"
    and "w' = w\<lparr>urandom_pos := urandom_pos w + 30 * Suc k,
                    store := save_model (u\<lparr>confirmation_token := Some (candidate rnd (urandom_pos w) k),
                       confirmation_sent_at := Some now\<rparr>) (store w),
                    outbox := outbox w @ [confirmation_message a req
                       (u\<lparr>confirmation_token := Some (candidate rnd (urandom_pos w) k),
                       confirmation_sent_at := Some now\<rparr>)],
                    signals := signals w @ [ConfirmInstructionsSent
                       (u\<lparr>confirmation_token := Some (candidate rnd (urandom_pos w) k),
                       confirmation_sent_at := Some now\<rparr>)]\<rparr>"
    by (simp_all add: reset_confirmation_token_def send_confirmation_instructions_def
          send_mail_def confirmation_message_def Let_def)
  with k(3) show ?thesis by blast
qed

lemma reset_terminates:
  assumes "\<not> token_in_use (candidate rnd (urandom_pos w) k) (store w)"
  shows "\<exists>r w'. reset_confirmation_token rnd a req now u w = Some (r, w')"
proof -
  from generate_terminates [OF assms] obtain r1 w1 where
    "generate_confirmation_token rnd now u w = Some (r1, w1)" by blast
  then show ?thesis
    by (cases r1) (auto simp: reset_confirmation_token_def Let_def split: prod.splits)
qed

subsection \<open>The scenario, evaluated\<close>

lemma demo_candidates:
  "candidate demo_rnd 0 0 = zero_token"
  "candidate demo_rnd 0 1 = ones_token"
  "candidate demo_rnd 0 2 = twos_token"
  by (simp_all add: candidate_def generate_token_def urandom_def demo_rnd_def upt_rec
        sextet_def b64_alphabet_def zero_token_def ones_token_def twos_token_def)

lemma demo_tokens_distinct:
  "zero_token \<noteq> ones_token" "zero_token \<noteq> twos_token" "ones_token \<noteq> twos_token"
  "zero_token \<noteq> []" "ones_token \<noteq> []"
  by (simp_all add: zero_token_def ones_token_def twos_token_def)

lemma demo_lookup:
  "find_user_by_confirmation_token (Some zero_token) (store demo_world) = Inr alice"
  "find_user_by_confirmation_token (Some ones_token) (store demo_world) = Inr bob"
  by (simp_all add: find_user_by_confirmation_token_def find_user_def demo_world_def
        alice_def bob_def demo_tokens_distinct)

lemma demo_third_draw_fresh:
  "\<exists>k. \<forall>v\<in>set (store demo_world).
         confirmation_token v \<noteq> Some (candidate demo_rnd (urandom_pos demo_world) k)"
proof -
  have "urandom_pos demo_world = 0" by (simp add: demo_world_def)
  moreover have "\<forall>v\<in>set (store demo_world). confirmation_token v \<noteq> Some twos_token"
    by (simp add: demo_world_def alice_def bob_def demo_tokens_distinct)
  ultimately show ?thesis
    by (intro exI [of _ 2]) (simp add: demo_candidates)
qed

lemma demo_expiry:
  "confirmation_token_is_expired demo_security (five_days + 1) alice = Inr True"
  "confirmation_token_is_expired demo_security 10 alice = Inr False"
  by (simp_all add: confirmation_token_is_expired_def should_confirm_email_def
        demo_security_def alice_def five_days_def)

lemma demo_confirmed:
  "confirmed_at alice = None" "confirmed_at bob \<noteq> None"
  by (simp_all add: alice_def bob_def)


section \<open>Properties\<close>

text \<open>
  C1. When the user found for a token is not confirmed and the expiry predicate holds,
  \<^verbatim>\<open>confirm_by_token\<close> raises \<^verbatim>\<open>TokenExpiredError\<close> with that user and changes
  nothing. A call of \<^verbatim>\<open>reset_confirmation_token\<close> on that user that returns has given
  the user a token different from the expired one, has stored the user, has handed
  exactly one message, the confirmation instructions with the new token, to the mail
  extension, and has emitted one notification that instructions were sent. The call
  returns whenever some draw of the generator is a token that no stored user holds.
\<close>

theorem expired_token_is_reissued:
  assumes "find_user_by_confirmation_token token (store w) = Inr u"
    and "confirmed_at u = None"
    and "confirmation_token_is_expired sec now u = Inr True"
  shows "confirm_by_token sec now stamp token w =
           (Inl (TokenExpiredError ''Confirmation token is expired'' u), w) \<and>
         (\<forall>r w'. reset_confirmation_token rnd a req again u w = Some (r, w') \<longrightarrow>
            (\<exists>t. r = Inr (u\<lparr>confirmation_token := Some t, confirmation_sent_at := Some again\<rparr>) \<and>
                 Some t \<noteq> token \<and>
                 u\<lparr>confirmation_token := Some t, confirmation_sent_at := Some again\<rparr>
                   \<in> set (store w') \<and>
                 outbox w' = outbox w @
                   [confirmation_message a req
                      (u\<lparr>confirmation_token := Some t, confirmation_sent_at := Some again\<rparr>)] \<and>
                 signals w' = signals w @
                   [ConfirmInstructionsSent
                      (u\<lparr>confirmation_token := Some t, confirmation_sent_at := Some again\<rparr>)])) \<and>
         ((\<exists>k. \<forall>v\<in>set (store w). confirmation_token v \<noteq> Some (candidate rnd (urandom_pos w) k)) \<longrightarrow>
            (\<exists>r w'. reset_confirmation_token rnd a req again u w = Some (r, w')))"
proof (intro conjI allI impI)
  show "confirm_by_token sec now stamp token w =
           (Inl (TokenExpiredError ''Confirmation token is expired'' u), w)"
    using assms by (rule confirm_expired)
next
  fix r w'
  assume "reset_confirmation_token rnd a req again u w = Some (r, w')"
  from reset_sound [OF this] obtain k where k:
    "r = Inr (u\<lparr>confirmation_token := Some (candidate rnd (urandom_pos w) k),
                confirmation_sent_at := Some again\<rparr>)"
    "store w' = save_model (u\<lparr>confirmation_token := Some (candidate rnd (urandom_pos w) k),
                              confirmation_sent_at := Some again\<rparr>) (store w)"
    "outbox w' = outbox w @ [confirmation_message a req
                       (u\<lparr>confirmation_token := Some (candidate rnd (urandom_pos w) k),
                          confirmation_sent_at := Some again\<rparr>)]"
    "signals w' = signals w @ [ConfirmInstructionsSent
                       (u\<lparr>confirmation_token := Some (candidate rnd (urandom_pos w) k),
                          confirmation_sent_at := Some again\<rparr>)]"
    "\<not> token_in_use (candidate rnd (urandom_pos w) k) (store w)"
    by auto
  from lookup_found [OF assms(1)] have "confirmation_token u = token" and "u \<in> set (store w)"
    by simp_all
  with k(5) have "Some (candidate rnd (urandom_pos w) k) \<noteq> token"
    by (auto simp: token_in_use_iff)
  with k(1,2,3,4) show
    "\<exists>t. r = Inr (u\<lparr>confirmation_token := Some t, confirmation_sent_at := Some again\<rparr>) \<and>
         Some t \<noteq> token \<and>
         u\<lparr>confirmation_token := Some t, confirmation_sent_at := Some again\<rparr> \<in> set (store w') \<and>
         outbox w' = outbox w @
           [confirmation_message a req
              (u\<lparr>confirmation_token := Some t, confirmation_sent_at := Some again\<rparr>)] \<and>
         signals w' = signals w @
           [ConfirmInstructionsSent
              (u\<lparr>confirmation_token := Some t, confirmation_sent_at := Some again\<rparr>)]"
    by (intro exI [of _ "candidate rnd (urandom_pos w) k"]) (simp add: save_model_mem)
next
  assume "\<exists>k. \<forall>v\<in>set (store w). confirmation_token v \<noteq> Some (candidate rnd (urandom_pos w) k)"
  then obtain k where "\<not> token_in_use (candidate rnd (urandom_pos w) k) (store w)"
    by (auto simp: token_in_use_iff)
  then show "\<exists>r w'. reset_confirmation_token rnd a req again u w = Some (r, w')"
    by (rule reset_terminates)
qed

theorem expired_token_is_reissued_witness:
  "confirm_by_token demo_security (five_days + 1) (five_days + 2) (Some zero_token) demo_world =
     (Inl (TokenExpiredError ''Confirmation token is expired'' alice), demo_world) \<and>
   (\<exists>u1 w1. reset_confirmation_token demo_rnd demo_app demo_request (five_days + 3) alice demo_world
               = Some (Inr u1, w1) \<and>
            confirmation_token u1 \<noteq> Some zero_token \<and>
            u1 \<in> set (store w1) \<and>
            outbox w1 = [confirmation_message demo_app demo_request u1] \<and>
            signals w1 = [ConfirmInstructionsSent u1])"
proof -
  note T = expired_token_is_reissued
             [OF demo_lookup(1) demo_confirmed(1) demo_expiry(1),
              of "five_days + 2" demo_rnd demo_app demo_request "five_days + 3"]
  from T demo_third_draw_fresh obtain r w' where
    r: "reset_confirmation_token demo_rnd demo_app demo_request (five_days + 3) alice demo_world
          = Some (r, w')"
    by blast
  with T obtain t where
    "r = Inr (alice\<lparr>confirmation_token := Some t, confirmation_sent_at := Some (five_days + 3)\<rparr>)"
    "Some t \<noteq> Some zero_token"
    "alice\<lparr>confirmation_token := Some t, confirmation_sent_at := Some (five_days + 3)\<rparr>
       \<in> set (store w')"
    "outbox w' = outbox demo_world @
       [confirmation_message demo_app demo_request
          (alice\<lparr>confirmation_token := Some t, confirmation_sent_at := Some (five_days + 3)\<rparr>)]"
    "signals w' = signals demo_world @
       [ConfirmInstructionsSent
          (alice\<lparr>confirmation_token := Some t, confirmation_sent_at := Some (five_days + 3)\<rparr>)]"
    by blast
  with r T show ?thesis by (simp add: demo_world_def)
qed

text \<open>
  C2. With confirmation enabled, the expiry predicate of a user whose token was sent at
  \<open>sent\<close> is true exactly when \<open>now - sent > confirm_email_within\<close>; with
  confirmation disabled it is false for every user, whatever the fields hold.
\<close>

theorem confirmation_token_is_expired_iff:
  "(confirm_email sec \<and> confirmation_sent_at u = Some sent \<longrightarrow>
      confirmation_token_is_expired sec now u = Inr (now - sent > confirm_email_within sec)) \<and>
   (\<not> confirm_email sec \<longrightarrow> confirmation_token_is_expired sec now u = Inr False)"
  by (auto simp: confirmation_token_is_expired_def should_confirm_email_def)

theorem confirmation_token_is_expired_iff_witness:
  "confirmation_token_is_expired demo_security (five_days + 1) alice = Inr True \<and>
   confirmation_token_is_expired demo_security five_days alice = Inr False \<and>
   confirmation_token_is_expired (demo_security\<lparr>confirm_email := False\<rparr>) (five_days + 1) alice
     = Inr False"
  using confirmation_token_is_expired_iff [of demo_security alice 0 "five_days + 1"]
        confirmation_token_is_expired_iff [of demo_security alice 0 five_days]
        confirmation_token_is_expired_iff
          [of "demo_security\<lparr>confirm_email := False\<rparr>" alice 0 "five_days + 1"]
  by (simp add: demo_security_def alice_def)

lemma confirmation_token_is_expired_unsent:
  "confirm_email sec \<Longrightarrow> confirmation_sent_at u = None \<Longrightarrow>
   confirmation_token_is_expired sec now u = Inl TypeError"
  by (simp add: confirmation_token_is_expired_def should_confirm_email_def)

text \<open>
  C3. Whenever \<^verbatim>\<open>generate_confirmation_token\<close> returns, it has assigned the token of
  some draw \<open>k\<close> of the generator: every earlier draw was a token some stored user
  holds, and the assigned token is held by no stored user at that moment, its lookup
  raising \<^verbatim>\<open>UserNotFoundError\<close>; the datastore is as it was. The function returns
  whenever some draw of the generator is a token that no stored user holds.
\<close>

theorem generated_token_is_unused:
  "(\<forall>r w'. generate_confirmation_token rnd now u w = Some (r, w') \<longrightarrow>
      (\<exists>k. r = Inr (u\<lparr>confirmation_token := Some (candidate rnd (urandom_pos w) k),
                      confirmation_sent_at := Some now\<rparr>) \<and>
           w' = w\<lparr>urandom_pos := urandom_pos w + 30 * Suc k\<rparr> \<and>
           (\<forall>j<k. \<exists>v\<in>set (store w).
                     confirmation_token v = Some (candidate rnd (urandom_pos w) j)) \<and>
           (\<forall>v\<in>set (store w'). confirmation_token v \<noteq> Some (candidate rnd (urandom_pos w) k)) \<and>
           find_user_by_confirmation_token (Some (candidate rnd (urandom_pos w) k)) (store w')
             = Inl UserNotFoundError)) \<and>
   ((\<exists>k. \<forall>v\<in>set (store w). confirmation_token v \<noteq> Some (candidate rnd (urandom_pos w) k)) \<longrightarrow>
      (\<exists>r w'. generate_confirmation_token rnd now u w = Some (r, w')))"
proof (intro conjI allI impI)
  fix r w'
  assume "generate_confirmation_token rnd now u w = Some (r, w')"
  from generate_sound [OF this] obtain k where k:
    "r = Inr (u\<lparr>confirmation_token := Some (candidate rnd (urandom_pos w) k),
                confirmation_sent_at := Some now\<rparr>)"
    "w' = w\<lparr>urandom_pos := urandom_pos w + 30 * Suc k\<rparr>"
    "\<not> token_in_use (candidate rnd (urandom_pos w) k) (store w)"
    "\<forall>j<k. token_in_use (candidate rnd (urandom_pos w) j) (store w)"
    by blast
  have "truthy (Some (candidate rnd (urandom_pos w) k))"
    unfolding candidate_def by (rule generate_token_truthy)
  from lookup_fresh [OF this k(3)] k show
    "\<exists>k. r = Inr (u\<lparr>confirmation_token := Some (candidate rnd (urandom_pos w) k),
                      confirmation_sent_at := Some now\<rparr>) \<and>
           w' = w\<lparr>urandom_pos := urandom_pos w + 30 * Suc k\<rparr> \<and>
           (\<forall>j<k. \<exists>v\<in>set (store w).
                     confirmation_token v = Some (candidate rnd (urandom_pos w) j)) \<and>
           (\<forall>v\<in>set (store w'). confirmation_token v \<noteq> Some (candidate rnd (urandom_pos w) k)) \<and>
           find_user_by_confirmation_token (Some (candidate rnd (urandom_pos w) k)) (store w')
             = Inl UserNotFoundError"
    by (intro exI [of _ k]) (simp add: token_in_use_iff)
next
  assume "\<exists>k. \<forall>v\<in>set (store w). confirmation_token v \<noteq> Some (candidate rnd (urandom_pos w) k)"
  then obtain k where "\<not> token_in_use (candidate rnd (urandom_pos w) k) (store w)"
    by (auto simp: token_in_use_iff)
  then show "\<exists>r w'. generate_confirmation_token rnd now u w = Some (r, w')"
    by (rule generate_terminates)
qed

theorem generated_token_is_unused_witness:
  "generate_confirmation_token demo_rnd 99 alice demo_world =
     Some (Inr (alice\<lparr>confirmation_token := Some twos_token, confirmation_sent_at := Some 99\<rparr>),
           demo_world\<lparr>urandom_pos := 90\<rparr>)"
proof -
  note T = generated_token_is_unused [of demo_rnd 99 alice demo_world]
  have pos: "urandom_pos demo_world = 0" by (simp add: demo_world_def)
  have held: "\<forall>v\<in>set (store demo_world). confirmation_token v \<noteq> Some t"
    if "t \<noteq> zero_token" and "t \<noteq> ones_token" for t
    using that by (auto simp: demo_world_def alice_def bob_def)
  from T demo_third_draw_fresh obtain r w' where
    r: "generate_confirmation_token demo_rnd 99 alice demo_world = Some (r, w')"
    by blast
  with T pos obtain k where k:
    "r = Inr (alice\<lparr>confirmation_token := Some (candidate demo_rnd 0 k),
                    confirmation_sent_at := Some 99\<rparr>)"
    "w' = demo_world\<lparr>urandom_pos := 30 * Suc k\<rparr>"
    "\<forall>j<k. \<exists>v\<in>set (store demo_world). confirmation_token v = Some (candidate demo_rnd 0 j)"
    "\<forall>v\<in>set (store w'). confirmation_token v \<noteq> Some (candidate demo_rnd 0 k)"
    by auto
  have "k = 2"
  proof (rule ccontr)
    assume "k \<noteq> 2"
    then consider "k = 0" | "k = 1" | "2 < k" by linarith
    then show False
    proof cases
      case 1
      then have "candidate demo_rnd 0 k = zero_token" using demo_candidates(1) by simp
      with k(2,4) show False by (simp add: demo_world_def alice_def)
    next
      case 2
      then have "candidate demo_rnd 0 k = ones_token" using demo_candidates(2) by simp
      with k(2,4) show False by (simp add: demo_world_def bob_def)
    next
      case 3
      with k(3) have "\<exists>v\<in>set (store demo_world).
                        confirmation_token v = Some (candidate demo_rnd 0 2)"
        by blast
      then have "\<exists>v\<in>set (store demo_world). confirmation_token v = Some twos_token"
        by (simp only: demo_candidates)
      then show False
        by (simp add: demo_world_def alice_def bob_def demo_tokens_distinct)
    qed
  qed
  with r k(1,2) show ?thesis by (simp add: demo_candidates)
qed

text \<open>
  C4. When the user found for a token is not confirmed and the token is not expired,
  \<^verbatim>\<open>confirm_by_token\<close> returns the user with \<^verbatim>\<open>confirmed_at\<close> set to the time of the
  call, the datastore holds that user, and exactly one \<^verbatim>\<open>user_confirmed\<close> notification
  for that user has been added.
\<close>

theorem confirmation_succeeds:
  assumes "find_user_by_confirmation_token token (store w) = Inr u"
    and "confirmed_at u = None"
    and "confirmation_token_is_expired sec now u = Inr False"
  shows "\<exists>w'. confirm_by_token sec now stamp token w = (Inr (u\<lparr>confirmed_at := Some stamp\<rparr>), w') \<and>
              confirmed_at (u\<lparr>confirmed_at := Some stamp\<rparr>) \<noteq> None \<and>
              store w' = save_model (u\<lparr>confirmed_at := Some stamp\<rparr>) (store w) \<and>
              u\<lparr>confirmed_at := Some stamp\<rparr> \<in> set (store w') \<and>
              signals w' = signals w @ [UserConfirmed (u\<lparr>confirmed_at := Some stamp\<rparr>)]"
  using confirm_success [OF assms, of stamp] by (simp add: save_model_mem)

theorem confirmation_succeeds_witness:
  "\<exists>w'. confirm_by_token demo_security 10 11 (Some zero_token) demo_world
          = (Inr (alice\<lparr>confirmed_at := Some 11\<rparr>), w') \<and>
        store w' = [alice\<lparr>confirmed_at := Some 11\<rparr>, bob] \<and>
        signals w' = [UserConfirmed (alice\<lparr>confirmed_at := Some 11\<rparr>)]"
  using confirmation_succeeds [OF demo_lookup(1) demo_confirmed(1) demo_expiry(2), of 11]
  by (auto simp: demo_world_def save_model_def alice_def bob_def)



text \<open>
  C6. When the user found for a token has \<^verbatim>\<open>confirmed_at\<close> set, \<^verbatim>\<open>confirm_by_token\<close>
  raises \<^verbatim>\<open>ConfirmationError\<close> and the world is unchanged: no field of any stored user
  differs and nothing was saved.
\<close>

theorem confirmed_user_is_refused:
  assumes "find_user_by_confirmation_token token (store w) = Inr u"
    and "confirmed_at u \<noteq> None"
  shows "confirm_by_token sec now stamp token w =
           (Inl (ConfirmationError ''Account has already been confirmed''), w)"
  using assms by (simp add: confirm_by_token_def)

theorem confirmed_user_is_refused_witness:
  "confirm_by_token demo_security 10 11 (Some ones_token) demo_world =
     (Inl (ConfirmationError ''Account has already been confirmed''), demo_world)"
  using confirmed_user_is_refused [OF demo_lookup(2) demo_confirmed(2)] .

text \<open>
  C7. For a token that is \<^verbatim>\<open>None\<close>, empty, or held by no stored user,
  \<^verbatim>\<open>confirm_by_token\<close> raises a \<^verbatim>\<open>ConfirmationError\<close>, no other exception, and changes
  nothing: the error of the lookup itself for \<^verbatim>\<open>None\<close> and the empty token, the
  translated \<^verbatim>\<open>UserNotFoundError\<close> for an unknown one.
\<close>

theorem missing_or_unknown_token_is_refused:
  assumes "\<not> truthy token \<or> (\<forall>v\<in>set (store w). confirmation_token v \<noteq> token)"
  shows "confirm_by_token sec now stamp token w =
           (Inl (ConfirmationError (if truthy token then ''Invalid confirmation token''
                                    else ''Confirmation token required'')), w)"
proof (cases "truthy token")
  case False
  then show ?thesis by (simp add: confirm_by_token_def lookup_falsy)
next
  case True
  with assms have "find_user_by_confirmation_token token (store w) = Inl UserNotFoundError"
    by (simp add: lookup_unknown)
  with True show ?thesis by (simp add: confirm_by_token_def)
qed

theorem missing_or_unknown_token_is_refused_witness:
  "confirm_by_token demo_security 10 11 None demo_world =
     (Inl (ConfirmationError ''Confirmation token required''), demo_world) \<and>
   confirm_by_token demo_security 10 11 (Some []) demo_world =
     (Inl (ConfirmationError ''Confirmation token required''), demo_world) \<and>
   confirm_by_token demo_security 10 11 (Some ''made-up'') demo_world =
     (Inl (ConfirmationError ''Invalid confirmation token''), demo_world)"
proof -
  have "\<forall>v\<in>set (store demo_world). confirmation_token v \<noteq> Some ''made-up''"
    by (simp add: demo_world_def alice_def bob_def zero_token_def ones_token_def)
  then show ?thesis
    using missing_or_unknown_token_is_refused [of None demo_world demo_security 10 11]
          missing_or_unknown_token_is_refused [of "Some []" demo_world demo_security 10 11]
          missing_or_unknown_token_is_refused [of "Some ''made-up''" demo_world demo_security 10 11]
    by simp
qed

text \<open>
  C8. After a successful confirmation the user still carries the token it was confirmed
  with and the time the token was sent, and the datastore still finds that user under the
  token.
\<close>

theorem confirmed_token_stays:
  assumes "find_user_by_confirmation_token token (store w) = Inr u"
    and "confirmed_at u = None"
    and "confirmation_token_is_expired sec now u = Inr False"
  shows "\<exists>u' w'. confirm_by_token sec now stamp token w = (Inr u', w') \<and>
           confirmation_token u' = confirmation_token u \<and>
           confirmation_token u' = token \<and> token \<noteq> None \<and>
           confirmation_sent_at u' = confirmation_sent_at u \<and>
           find_user_by_confirmation_token token (store w') = Inr u'"
proof -
  let ?u = "u\<lparr>confirmed_at := Some stamp\<rparr>"
  note f = lookup_found [OF assms(1)]
  have "List.find (\<lambda>v. confirmation_token v = token) (save_model ?u (store w)) = Some ?u"
    using f(4) by (rule find_after_save) (simp_all add: f(2))
  with f(1) have "find_user_by_confirmation_token token (save_model ?u (store w)) = Inr ?u"
    by (simp add: find_user_by_confirmation_token_def find_user_def)
  moreover from f(1) have "token \<noteq> None" by (cases token) simp_all
  ultimately show ?thesis
    using confirm_success [OF assms, of stamp] f(2) by simp
qed

theorem confirmed_token_stays_witness:
  "\<exists>u' w'. confirm_by_token demo_security 10 11 (Some zero_token) demo_world = (Inr u', w') \<and>
           confirmation_token u' = Some zero_token \<and>
           confirmation_sent_at u' = Some 0 \<and>
           find_user_by_confirmation_token (Some zero_token) (store w') = Inr u'"
  using confirmed_token_stays [OF demo_lookup(1) demo_confirmed(1) demo_expiry(2), of 11]
  by (auto simp: alice_def)

text \<open>
  C9. \<^verbatim>\<open>authenticate\<close> always returns a redirect and never an exception. When the
  attempt raises, the redirect goes to the referrer or the login view, and the message
  handed to \<^verbatim>\<open>do_flash\<close> is the one of the \<^verbatim>\<open>BadCredentialsError\<close>, or
  \<^verbatim>\<open>Unknown authentication error\<close> for any other exception; it is flashed when
  \<^verbatim>\<open>SECURITY_FLASH_MESSAGES\<close> is set and dropped otherwise. The attempt raises
  whatever the provider raises, and \<^verbatim>\<open>BadCredentialsError\<close> for a user that
  Flask-Login refuses.
\<close>

theorem authenticate_handles_every_error:
  "(\<exists>loc. fst (authenticate provider a req form w) = Inr (Redirect loc)) \<and>
   (\<forall>e w1. authenticate_attempt provider a req form w = (Inl e, w1) \<longrightarrow>
      authenticate provider a req form w =
        (Inr (Redirect (if truthy (referrer req) then str_of (referrer req)
                        else login_view (app_security a))),
         if flash_messages a
         then w1\<lparr>flashes := flashes w1 @
                [(case e of BadCredentialsError m \<Rightarrow> m | _ \<Rightarrow> ''Unknown authentication error'',
                  ''error'')]\<rparr>
         else w1)) \<and>
   (\<forall>e. provider form (store w) = Inl e \<longrightarrow>
      authenticate_attempt provider a req form w = (Inl e, w)) \<and>
   (\<forall>u. provider form (store w) = Inr u \<and> \<not> active u \<longrightarrow>
      authenticate_attempt provider a req form w = (Inl (BadCredentialsError ''Inactive user''), w))"
proof (intro conjI allI impI)
  show "\<exists>loc. fst (authenticate provider a req form w) = Inr (Redirect loc)"
  proof (cases "authenticate_attempt provider a req form w")
    case (Pair r w1)
    then show ?thesis
      by (cases r) (auto simp: authenticate_def Let_def intro: response.exhaust)
  qed
next
  fix e w1
  assume "authenticate_attempt provider a req form w = (Inl e, w1)"
  then show "authenticate provider a req form w =
        (Inr (Redirect (if truthy (referrer req) then str_of (referrer req)
                        else login_view (app_security a))),
         if flash_messages a
         then w1\<lparr>flashes := flashes w1 @
                [(case e of BadCredentialsError m \<Rightarrow> m | _ \<Rightarrow> ''Unknown authentication error'',
                  ''error'')]\<rparr>
         else w1)"
    by (simp add: authenticate_def do_flash_def Let_def)
next
  fix e
  assume "provider form (store w) = Inl e"
  then show "authenticate_attempt provider a req form w = (Inl e, w)"
    by (simp add: authenticate_attempt_def)
next
  fix u
  assume "provider form (store w) = Inr u \<and> \<not> active u"
  then show "authenticate_attempt provider a req form w
               = (Inl (BadCredentialsError ''Inactive user''), w)"
    by (simp add: authenticate_attempt_def do_login_def login_user_def)
qed

theorem authenticate_handles_every_error_witness:
  "authenticate rejecting_provider demo_app demo_request demo_login_form demo_world =
     (Inr (Redirect ''/login''), demo_world\<lparr>flashes := [(''Invalid password'', ''error'')]\<rparr>) \<and>
   authenticate broken_provider demo_app demo_request demo_login_form demo_world =
     (Inr (Redirect ''/login''),
      demo_world\<lparr>flashes := [(''Unknown authentication error'', ''error'')]\<rparr>)"
proof -
  note R = authenticate_handles_every_error
             [of rejecting_provider demo_app demo_request demo_login_form demo_world]
  note B = authenticate_handles_every_error
             [of broken_provider demo_app demo_request demo_login_form demo_world]
  have "rejecting_provider demo_login_form (store demo_world)
          = Inl (BadCredentialsError ''Invalid password'')"
    by (simp add: rejecting_provider_def)
  with R have r: "authenticate_attempt rejecting_provider demo_app demo_request demo_login_form
                    demo_world = (Inl (BadCredentialsError ''Invalid password''), demo_world)"
    by blast
  have "broken_provider demo_login_form (store demo_world) = Inl (OtherException ''AttributeError'')"
    by (simp add: broken_provider_def)
  with B have b: "authenticate_attempt broken_provider demo_app demo_request demo_login_form
                    demo_world = (Inl (OtherException ''AttributeError''), demo_world)"
    by blast
  from R r B b show ?thesis
    by (simp add: demo_app_def demo_security_def demo_request_def demo_world_def)
qed

text \<open>
  With flash messages switched off, a rejected attempt redirects and flashes nothing.
\<close>

theorem authenticate_flash_counterexample:
  "authenticate rejecting_provider (demo_app\<lparr>flash_messages := False\<rparr>) demo_request
     demo_login_form demo_world = (Inr (Redirect ''/login''), demo_world) \<and>
   flashes demo_world = []"
  by (simp add: authenticate_def authenticate_attempt_def rejecting_provider_def do_flash_def
        demo_app_def demo_security_def demo_request_def demo_world_def)

text \<open>
  C10. When the registration form does not validate, \<^verbatim>\<open>register\<close> returns a redirect
  to the referrer, or to the register URL, and the world is unchanged: no user created,
  no notification, no mail, no login.
\<close>

theorem invalid_registration_changes_nothing:
  assumes "\<not> rf_valid form"
  shows "register a req form w =
           (Redirect (if truthy (referrer req) then str_of (referrer req)
                      else register_url (app_security a)), w)"
  using assms by (simp add: register_def)

theorem invalid_registration_changes_nothing_witness:
  "register demo_app demo_request (carol_form\<lparr>rf_valid := False\<rparr>) demo_world =
     (Redirect ''/register'', demo_world)"
  using invalid_registration_changes_nothing
          [of "carol_form\<lparr>rf_valid := False\<rparr>" demo_app demo_request demo_world]
  by (simp add: demo_app_def demo_security_def demo_request_def)

end
